theory Spec2Isabelle
  imports Main "HOL-Library.Word" "HOL-Library.Monad_Syntax"
begin

section \<open>Data of libeye.c\<close>

text \<open>
  Pointers are addresses, \<open>0\<close> is \<open>NULL\<close>. X resource identifiers (\<open>Window\<close>,
  \<open>Pixmap\<close>, \<open>Atom\<close>) are \<open>unsigned long\<close>, 64 bits. A C \<open>int\<close> is an \<open>int\<close>; the
  only arithmetic of the file is the size \<open>bytes_per_line * height\<close> handed to
  \<open>shmget\<close>, whose wrap-around is written out below.
\<close>

type_synonym addr = nat
type_synonym XID = "64 word"
type_synonym Window = XID
type_synonym Pixmap = XID
type_synonym Atom = XID
type_synonym byte = "8 word"

definition NULL :: addr where
  "NULL = 0"

definition Success :: int where
  "Success = 0"

text \<open>
  The product of two 32-bit \<open>int\<close>s, as the compiled code computes it: the exact
  product wrapped into the range of \<open>int\<close>. (The C standard leaves the overflow
  undefined.)
\<close>

definition int_mult :: "int \<Rightarrow> int \<Rightarrow> int" where
  "int_mult a b = (a * b + 2 ^ 31) mod 2 ^ 32 - 2 ^ 31"

text \<open>The conversion of an \<open>int\<close> to \<open>size_t\<close>, 64 bits unsigned.\<close>

definition size_t_of_int :: "int \<Rightarrow> int" where
  "size_t_of_int n = n mod 2 ^ 64"

text \<open>
  \<open>*(Window *)prop\<close>: the first eight bytes of the buffer, least significant byte
  first. A buffer shorter than a \<open>Window\<close> is read past its end: undefined behaviour,
  the value \<open>None\<close>.
\<close>

definition read_Window :: "byte list \<Rightarrow> Window option" where
  "read_Window buf =
     (if length buf < 8 then None
      else Some (of_nat (foldr (\<lambda>b n. unat b + 256 * n) (take 8 buf) 0)))"

text \<open>The fields of \<open>XWindowAttributes\<close> that \<open>create_acquisition\<close> reads.\<close>

record XWindowAttributes =
  attr_width :: int
  attr_height :: int
  attr_depth :: int
  attr_visual :: addr

text \<open>The fields of \<open>XImage\<close> that the file reads or writes.\<close>

record XImage =
  xi_width :: int
  xi_height :: int
  data :: addr
  bytes_per_line :: int

record XShmSegmentInfo =
  shmid :: int
  shmaddr :: addr
  readOnly :: bool

text \<open>
  The state: the file's static variables (\<open>display\<close> \<dots> \<open>image_data\<close>; the static
  \<open>image\<close> is \<open>image_ptr\<close> here), followed by what the process holds outside them:
  the open server connections, the windows redirected and the pixmaps named on a
  connection, the segments attached to the server through a connection, the live image
  descriptors (the heap cells \<open>image\<close> can point to), the shared-memory segments that
  exist, the addresses where one is attached, and the bytes at those addresses.
\<close>

record state =
  display :: addr
  screen :: int
  image_ptr :: addr
  shminfo :: XShmSegmentInfo
  rootwindow :: Window
  pixmap :: Pixmap
  xid :: Window
  width :: int
  height :: int
  image_data :: addr
  connections :: "addr list"
  redirected :: "(addr \<times> Window) list"
  named_pixmaps :: "(addr \<times> Pixmap) list"
  server_attached :: "(addr \<times> int) list"
  ximages :: "addr \<rightharpoonup> XImage"
  segments :: "int list"
  attachments :: "addr list"
  shm_contents :: "addr \<Rightarrow> byte list"

text \<open>The state of a process that has called nothing yet: the static initialisers.\<close>

definition initial_state :: state where
  "initial_state =
     \<lparr>display = NULL, screen = 0, image_ptr = NULL,
      shminfo = \<lparr>shmid = 0, shmaddr = NULL, readOnly = False\<rparr>,
      rootwindow = 0, pixmap = 0, xid = 0, width = 0, height = 0, image_data = NULL,
      connections = [], redirected = [], named_pixmaps = [], server_attached = [],
      ximages = Map.empty, segments = [], attachments = [],
      shm_contents = (\<lambda>a. [])\<rparr>"

section \<open>The windowing server and the operating system\<close>

text \<open>
  What the server and the kernel answer at the time of a call is a parameter: one
  \<open>xenv\<close> per call of an operation, so that the window can be resized, destroyed or
  redrawn between two calls.
\<close>

record xenv =
  XOpenDisplay_env :: addr
  DefaultScreen_env :: int
  XInternAtom_env :: "string \<Rightarrow> Atom"
  XGetWindowProperty_env :: "Window \<Rightarrow> Atom \<Rightarrow> int \<times> byte list option"
  XGetWindowAttributes_env :: "Window \<Rightarrow> XWindowAttributes option"
  XCompositeQueryExtension_env :: bool
  XCompositeNameWindowPixmap_env :: "Window \<Rightarrow> Pixmap"
  XShmCreateImage_env :: "addr \<Rightarrow> int \<Rightarrow> int \<Rightarrow> int \<Rightarrow> addr \<times> int"
  shmget_env :: "int \<Rightarrow> int"
  shmat_env :: "int \<Rightarrow> addr"
  XShmAttach_env :: bool
  DefaultRootWindow_env :: Window
  XShmGetImage_env :: "Pixmap \<Rightarrow> byte list option"

text \<open>
  A library call that is handed a connection dereferences it: on a pointer that is
  not an open connection the call is undefined behaviour, the value \<open>None\<close>. The same
  holds for a call that reads an image descriptor that is not live.
\<close>

definition valid_display :: "state \<Rightarrow> addr \<Rightarrow> bool" where
  "valid_display s d = (d \<noteq> NULL \<and> d \<in> set (connections s))"

definition XOpenDisplay :: "xenv \<Rightarrow> state \<Rightarrow> addr \<times> state" where
  "XOpenDisplay e s =
     (let d = XOpenDisplay_env e
      in (d, if d = NULL then s else s\<lparr>connections := d # connections s\<rparr>))"

text \<open>Closing a connection frees what the server holds for it.\<close>

definition XCloseDisplay :: "addr \<Rightarrow> state \<Rightarrow> state option" where
  "XCloseDisplay d s =
     (if valid_display s d
      then Some (s\<lparr>connections := remove1 d (connections s),
                   redirected := filter (\<lambda>r. fst r \<noteq> d) (redirected s),
                   named_pixmaps := filter (\<lambda>r. fst r \<noteq> d) (named_pixmaps s),
                   server_attached := filter (\<lambda>r. fst r \<noteq> d) (server_attached s)\<rparr>)
      else None)"

definition DefaultScreen :: "xenv \<Rightarrow> addr \<Rightarrow> state \<Rightarrow> int option" where
  "DefaultScreen e d s = (if valid_display s d then Some (DefaultScreen_env e) else None)"

definition DefaultRootWindow :: "xenv \<Rightarrow> addr \<Rightarrow> state \<Rightarrow> Window option" where
  "DefaultRootWindow e d s =
     (if valid_display s d then Some (DefaultRootWindow_env e) else None)"

definition XInternAtom :: "xenv \<Rightarrow> addr \<Rightarrow> string \<Rightarrow> state \<Rightarrow> Atom option" where
  "XInternAtom e d name s =
     (if valid_display s d then Some (XInternAtom_env e name) else None)"

text \<open>
  \<open>XGetWindowProperty\<close> answers a status and \<open>prop\<close>: \<open>None\<close> is a \<open>NULL\<close> \<open>prop\<close>,
  \<open>Some buf\<close> the bytes of the buffer it allocated. The library allocates one byte
  more than the items it returns: a property that is absent gives \<open>Success\<close> and a
  \<open>NULL\<close> \<open>prop\<close>, a property that is empty or of another type than the one asked for
  gives \<open>Success\<close>, no item and a buffer of one byte, and a property of one window
  gives a buffer of nine bytes.
\<close>

definition XGetWindowProperty ::
  "xenv \<Rightarrow> addr \<Rightarrow> Window \<Rightarrow> Atom \<Rightarrow> state \<Rightarrow> (int \<times> byte list option) option" where
  "XGetWindowProperty e d w a s =
     (if valid_display s d then Some (XGetWindowProperty_env e w a) else None)"

text \<open>\<open>XGetWindowAttributes\<close>: \<open>Some None\<close> is the status zero.\<close>

definition XGetWindowAttributes ::
  "xenv \<Rightarrow> addr \<Rightarrow> Window \<Rightarrow> state \<Rightarrow> XWindowAttributes option option" where
  "XGetWindowAttributes e d w s =
     (if valid_display s d then Some (XGetWindowAttributes_env e w) else None)"

definition XCompositeQueryExtension :: "xenv \<Rightarrow> addr \<Rightarrow> state \<Rightarrow> bool option" where
  "XCompositeQueryExtension e d s =
     (if valid_display s d then Some (XCompositeQueryExtension_env e) else None)"

definition XCompositeRedirectWindow :: "addr \<Rightarrow> Window \<Rightarrow> state \<Rightarrow> state option" where
  "XCompositeRedirectWindow d w s =
     (if valid_display s d then Some (s\<lparr>redirected := (d, w) # redirected s\<rparr>) else None)"

definition XCompositeNameWindowPixmap ::
  "xenv \<Rightarrow> addr \<Rightarrow> Window \<Rightarrow> state \<Rightarrow> (Pixmap \<times> state) option" where
  "XCompositeNameWindowPixmap e d w s =
     (if valid_display s d
      then (let p = XCompositeNameWindowPixmap_env e w
            in Some (p, if p = 0 then s else s\<lparr>named_pixmaps := (d, p) # named_pixmaps s\<rparr>))
      else None)"

text \<open>
  \<open>XShmCreateImage\<close> with a \<open>NULL\<close> data argument: the server environment chooses the
  address of the descriptor (\<open>NULL\<close> on failure) and its row stride.
\<close>

definition XShmCreateImage ::
  "xenv \<Rightarrow> addr \<Rightarrow> addr \<Rightarrow> int \<Rightarrow> int \<Rightarrow> int \<Rightarrow> state \<Rightarrow> (addr \<times> state) option" where
  "XShmCreateImage e d visual depth w h s =
     (if valid_display s d
      then (let (im, stride) = XShmCreateImage_env e visual depth w h
            in Some (im, if im = NULL then s
                         else s\<lparr>ximages := (ximages s)(im \<mapsto>
                                \<lparr>xi_width = w, xi_height = h, data = NULL,
                                 bytes_per_line = stride\<rparr>)\<rparr>))
      else None)"

text \<open>\<open>XDestroyImage\<close> of a shared-memory image frees the descriptor only.\<close>

definition XDestroyImage :: "addr \<Rightarrow> state \<Rightarrow> state option" where
  "XDestroyImage im s =
     (case ximages s im of
        None \<Rightarrow> None
      | Some x \<Rightarrow> Some (s\<lparr>ximages := (ximages s)(im := None)\<rparr>))"

definition shmget :: "xenv \<Rightarrow> int \<Rightarrow> state \<Rightarrow> int \<times> state" where
  "shmget e size_bytes s =
     (let i = shmget_env e size_bytes
      in (i, if i = - 1 then s else s\<lparr>segments := i # segments s\<rparr>))"

text \<open>\<open>shmat\<close> answers \<open>(void *) -1\<close> when it fails.\<close>

definition SHMAT_FAILED :: addr where
  "SHMAT_FAILED = 2 ^ 64 - 1"

definition shmat :: "xenv \<Rightarrow> int \<Rightarrow> state \<Rightarrow> addr \<times> state" where
  "shmat e i s =
     (let a = shmat_env e i
      in (a, if a = SHMAT_FAILED then s else s\<lparr>attachments := a # attachments s\<rparr>))"

definition shmdt :: "addr \<Rightarrow> state \<Rightarrow> state" where
  "shmdt a s = s\<lparr>attachments := remove1 a (attachments s)\<rparr>"

definition shmctl_IPC_RMID :: "int \<Rightarrow> state \<Rightarrow> state" where
  "shmctl_IPC_RMID i s = s\<lparr>segments := remove1 i (segments s)\<rparr>"

definition XShmAttach :: "xenv \<Rightarrow> addr \<Rightarrow> XShmSegmentInfo \<Rightarrow> state \<Rightarrow> (bool \<times> state) option" where
  "XShmAttach e d info s =
     (if valid_display s d
      then (let ok = XShmAttach_env e
            in Some (ok, if ok then s\<lparr>server_attached := (d, shmid info) # server_attached s\<rparr>
                         else s))
      else None)"

definition XShmDetach :: "addr \<Rightarrow> XShmSegmentInfo \<Rightarrow> state \<Rightarrow> state option" where
  "XShmDetach d info s =
     (if valid_display s d
      then Some (s\<lparr>server_attached := remove1 (d, shmid info) (server_attached s)\<rparr>)
      else None)"

text \<open>
  \<open>XShmGetImage\<close>: the server either refuses the request and writes nothing (the
  call answers \<open>False\<close>), or fills the segment of the image, which the process sees
  at \<open>image->data\<close>. The descriptor itself is only read.
\<close>

definition XShmGetImage ::
  "xenv \<Rightarrow> addr \<Rightarrow> Pixmap \<Rightarrow> addr \<Rightarrow> state \<Rightarrow> (bool \<times> state) option" where
  "XShmGetImage e d p im s =
     (if valid_display s d
      then (case ximages s im of
              None \<Rightarrow> None
            | Some x \<Rightarrow>
                (case XShmGetImage_env e p of
                   None \<Rightarrow> Some (False, s)
                 | Some bytes \<Rightarrow>
                     Some (True, s\<lparr>shm_contents := (shm_contents s)(data x := bytes)\<rparr>)))
      else None)"

section \<open>The functions of libeye.c\<close>

subsection \<open>find_client_window\<close>

definition find_client_window :: "xenv \<Rightarrow> addr \<Rightarrow> Window \<Rightarrow> state \<Rightarrow> Window option" where
  "find_client_window e d window s =
     do {
       frame_atom \<leftarrow> XInternAtom e d ''_NET_WM_FRAME_WINDOW'' s;
       (status, prop) \<leftarrow> XGetWindowProperty e d window frame_atom s;
       (case prop of
          Some buf \<Rightarrow>
            if status = Success then read_Window buf else Some window
        | None \<Rightarrow> Some window)
     }"

subsection \<open>create_acquisition\<close>

definition create_acquisition :: "xenv \<Rightarrow> Window \<Rightarrow> state \<Rightarrow> (int \<times> state) option" where
  "create_acquisition e window_id s0 =
     (let (d, s1) = XOpenDisplay e s0;
          s2 = s1\<lparr>display := d\<rparr>
      in if display s2 = NULL then Some (- 1, s2)
      else do {
        scr \<leftarrow> DefaultScreen e (display s2) s2;
        let s3 = s2\<lparr>screen := scr\<rparr>;
        client \<leftarrow> find_client_window e (display s3) window_id s3;
        let s4 = s3\<lparr>xid := client\<rparr>;
        got \<leftarrow> XGetWindowAttributes e (display s4) (xid s4) s4;
        (case got of
           None \<Rightarrow> Some (- 1, s4)
         | Some attr \<Rightarrow> do {
             let s5 = s4\<lparr>width := attr_width attr, height := attr_height attr\<rparr>;
             ext \<leftarrow> XCompositeQueryExtension e (display s5) s5;
             if \<not> ext then Some (- 1, s5)
             else do {
               s6 \<leftarrow> XCompositeRedirectWindow (display s5) (xid s5) s5;
               (p, s7) \<leftarrow> XCompositeNameWindowPixmap e (display s6) (xid s6) s6;
               let s8 = s7\<lparr>pixmap := p\<rparr>;
               if pixmap s8 = 0 then Some (- 1, s8)
               else do {
                 (im, s9) \<leftarrow> XShmCreateImage e (display s8) (attr_visual attr)
                               (attr_depth attr) (width s8) (height s8) s8;
                 let s10 = s9\<lparr>image_ptr := im\<rparr>;
                 if image_ptr s10 = NULL then Some (- 1, s10)
                 else do {
                   x \<leftarrow> ximages s10 (image_ptr s10);
                   let (i, s11) = shmget e
                                    (size_t_of_int (int_mult (bytes_per_line x) (xi_height x)))
                                    s10;
                   let s12 = s11\<lparr>shminfo := (shminfo s11)\<lparr>shmid := i\<rparr>\<rparr>;
                   if shmid (shminfo s12) = - 1 then Some (- 1, s12)
                   else do {
                     let (a, s13) = shmat e (shmid (shminfo s12)) s12;
                     x' \<leftarrow> ximages s13 (image_ptr s13);
                     let s14 = s13\<lparr>ximages := (ximages s13)(image_ptr s13 \<mapsto> x'\<lparr>data := a\<rparr>),
                                    shminfo := (shminfo s13)\<lparr>shmaddr := a, readOnly := False\<rparr>\<rparr>;
                     (ok, s15) \<leftarrow> XShmAttach e (display s14) (shminfo s14) s14;
                     if \<not> ok then Some (- 1, s15)
                     else do {
                       root \<leftarrow> DefaultRootWindow e (display s15) s15;
                       Some (0, s15\<lparr>rootwindow := root\<rparr>)
                     }
                   }
                 }
               }
             }
           })
      })"

subsection \<open>update_array\<close>

definition update_array :: "xenv \<Rightarrow> state \<Rightarrow> (int \<times> state) option" where
  "update_array e s =
     (if display s = NULL \<or> image_ptr s = NULL then Some (- 1, s)
      else do {
        (p, s1) \<leftarrow> XCompositeNameWindowPixmap e (display s) (xid s) s;
        let s2 = s1\<lparr>pixmap := p\<rparr>;
        if pixmap s2 = 0 then Some (- 1, s2)
        else do {
          (ok, s3) \<leftarrow> XShmGetImage e (display s2) (pixmap s2) (image_ptr s2) s2;
          if \<not> ok then Some (- 1, s3)
          else do {
            x \<leftarrow> ximages s3 (image_ptr s3);
            Some (0, s3\<lparr>image_data := data x\<rparr>)
          }
        }
      })"

subsection \<open>The accessors\<close>

definition get_image_data :: "state \<Rightarrow> addr" where
  "get_image_data s = image_data s"

definition get_window_size :: "state \<Rightarrow> int \<times> int" where
  "get_window_size s = (width s, height s)"

text \<open>\<open>get_stride\<close> reads through \<open>image\<close> when it is not \<open>NULL\<close>.\<close>

definition get_stride :: "state \<Rightarrow> int option" where
  "get_stride s =
     (if image_ptr s = NULL then Some 0
      else map_option bytes_per_line (ximages s (image_ptr s)))"

subsection \<open>close_acquisition\<close>

definition close_acquisition :: "state \<Rightarrow> state option" where
  "close_acquisition s =
     do {
       s4 \<leftarrow> (if image_ptr s = NULL then Some s
              else do {
                s1 \<leftarrow> XShmDetach (display s) (shminfo s) s;
                let s2 = shmdt (shmaddr (shminfo s1)) s1;
                let s3 = shmctl_IPC_RMID (shmid (shminfo s2)) s2;
                XDestroyImage (image_ptr s3) s3
              });
       if display s4 = NULL then Some s4 else XCloseDisplay (display s4) s4
     }"

subsection \<open>Sequences of refreshes\<close>

text \<open>
  A caller's polling loop: one \<open>update_array\<close> per environment of the list, whatever
  each call returns.
\<close>

fun refreshes :: "xenv list \<Rightarrow> state \<Rightarrow> state option" where
  "refreshes [] s = Some s"
| "refreshes (e # es) s =
     (case update_array e s of
        None \<Rightarrow> None
      | Some (r, s') \<Rightarrow> refreshes es s')"

section \<open>Sessions and example environments\<close>

text \<open>
  A session is open when \<open>display\<close> is an open connection and \<open>image\<close> points to a
  live descriptor: what a successful \<open>create_acquisition\<close> establishes.
\<close>

definition session_open :: "state \<Rightarrow> bool" where
  "session_open s =
     (valid_display s (display s) \<and> image_ptr s \<noteq> NULL \<and> ximages s (image_ptr s) \<noteq> None)"

text \<open>
  An example server: window 7 is a window manager's frame whose
  \<open>_NET_WM_FRAME_WINDOW\<close> property names window 9; every window is 800 by 600 at depth
  24; rows take 4 bytes per pixel.
\<close>

definition demo_env :: xenv where
  "demo_env =
     \<lparr>XOpenDisplay_env = 4096, DefaultScreen_env = 0, XInternAtom_env = (\<lambda>n. 321),
      XGetWindowProperty_env =
        (\<lambda>w a. if w = 7 then (0, Some [9, 0, 0, 0, 0, 0, 0, 0, 0]) else (0, None)),
      XGetWindowAttributes_env =
        (\<lambda>w. Some \<lparr>attr_width = 800, attr_height = 600, attr_depth = 24, attr_visual = 64\<rparr>),
      XCompositeQueryExtension_env = True,
      XCompositeNameWindowPixmap_env = (\<lambda>w. 77),
      XShmCreateImage_env = (\<lambda>v d w h. (8192, 4 * w)),
      shmget_env = (\<lambda>n. 5), shmat_env = (\<lambda>i. 65536), XShmAttach_env = True,
      DefaultRootWindow_env = 1, XShmGetImage_env = (\<lambda>p. Some [1, 2, 3, 4])\<rparr>"

text \<open>The same server after the window has grown to 1024 by 768: the transfer still succeeds.\<close>

definition resized_env :: xenv where
  "resized_env =
     demo_env\<lparr>XGetWindowAttributes_env :=
                (\<lambda>w. Some \<lparr>attr_width = 1024, attr_height = 768, attr_depth = 24,
                           attr_visual = 64\<rparr>),
              XCompositeNameWindowPixmap_env := (\<lambda>w. 78),
              XShmGetImage_env := (\<lambda>p. Some [5, 6, 7, 8])\<rparr>"

text \<open>The same server refusing the image transfer of a newly named pixmap.\<close>

definition refused_env :: xenv where
  "refused_env =
     demo_env\<lparr>XCompositeNameWindowPixmap_env := (\<lambda>w. 78), XShmGetImage_env := (\<lambda>p. None)\<rparr>"

text \<open>
  The same server where the \<open>_NET_WM_FRAME_WINDOW\<close> property of every window exists
  with another type than \<open>WINDOW\<close>: the query answers \<open>Success\<close>, no item, and the
  one byte the library allocates.
\<close>

definition other_type_env :: xenv where
  "other_type_env = demo_env\<lparr>XGetWindowProperty_env := (\<lambda>w a. (0, Some [0]))\<rparr>"

text \<open>A server without the shared-memory extension: \<open>XShmAttach\<close> answers zero.\<close>

definition no_attach_env :: xenv where
  "no_attach_env = demo_env\<lparr>XShmAttach_env := False\<rparr>"

text \<open>The state after \<open>create_acquisition(7)\<close> on the example server, and after one refresh.\<close>

definition demo_session :: state where
  "demo_session =
     \<lparr>display = 4096, screen = 0, image_ptr = 8192,
      shminfo = \<lparr>shmid = 5, shmaddr = 65536, readOnly = False\<rparr>,
      rootwindow = 1, pixmap = 77, xid = 9, width = 800, height = 600, image_data = NULL,
      connections = [4096], redirected = [(4096, 9)], named_pixmaps = [(4096, 77)],
      server_attached = [(4096, 5)],
      ximages = [8192 \<mapsto> \<lparr>xi_width = 800, xi_height = 600, data = 65536,
                             bytes_per_line = 3200\<rparr>],
      segments = [5], attachments = [65536],
      shm_contents = (\<lambda>a. [])\<rparr>"

definition demo_refreshed :: state where
  "demo_refreshed =
     demo_session\<lparr>image_data := 65536,
                  named_pixmaps := [(4096, 77), (4096, 77)],
                  shm_contents := (\<lambda>a. [])(65536 := [1, 2, 3, 4])\<rparr>"

section \<open>Facts shared by the properties\<close>

lemmas call_defs = XOpenDisplay_def XCloseDisplay_def DefaultScreen_def DefaultRootWindow_def
  XInternAtom_def XGetWindowProperty_def XGetWindowAttributes_def XCompositeQueryExtension_def
  XCompositeRedirectWindow_def XCompositeNameWindowPixmap_def XShmCreateImage_def
  XDestroyImage_def shmget_def shmat_def shmdt_def shmctl_IPC_RMID_def XShmAttach_def
  XShmDetach_def XShmGetImage_def

lemmas const_defs = valid_display_def NULL_def Success_def SHMAT_FAILED_def int_mult_def
  size_t_of_int_def read_Window_def

lemmas demo_defs = demo_env_def resized_env_def refused_env_def no_attach_env_def
  other_type_env_def
  demo_session_def demo_refreshed_def initial_state_def

lemma demo_open: "create_acquisition demo_env 7 initial_state = Some (0, demo_session)"
  by (simp add: create_acquisition_def find_client_window_def demo_defs call_defs
        const_defs Let_def)

lemma demo_refresh: "update_array demo_env demo_session = Some (0, demo_refreshed)"
  by (simp add: update_array_def demo_defs call_defs const_defs Let_def)


lemma demo_refreshed_open: "session_open demo_refreshed"
  by (simp add: session_open_def demo_defs const_defs)

text \<open>What a successful \<open>create_acquisition\<close> leaves behind.\<close>

lemma create_acquisition_success:
  assumes "create_acquisition e w s0 = Some (0, s1)"
  shows "session_open s1"
    and "\<exists>attr. XGetWindowAttributes_env e (xid s1) = Some attr \<and>
                width s1 = attr_width attr \<and> height s1 = attr_height attr"
    and "\<exists>x. ximages s1 (image_ptr s1) = Some x \<and> data x = shmaddr (shminfo s1)"
  using assms
  unfolding create_acquisition_def session_open_def
  by (auto simp: call_defs valid_display_def Let_def
           split: if_splits option.splits prod.splits Option.bind_splits)

text \<open>What no \<open>update_array\<close> touches.\<close>

lemma update_array_frame:
  assumes "update_array e s = Some (r, s')"
  shows "display s' = display s \<and> image_ptr s' = image_ptr s \<and> ximages s' = ximages s \<and>
         shminfo s' = shminfo s \<and> width s' = width s \<and> height s' = height s \<and>
         xid s' = xid s \<and> connections s' = connections s \<and> segments s' = segments s \<and>
         attachments s' = attachments s"
  using assms
  unfolding update_array_def
  by (auto simp: call_defs Let_def
           split: if_splits option.splits prod.splits Option.bind_splits)

lemma update_array_returns:
  assumes "session_open s"
  shows "\<exists>r s'. update_array e s = Some (r, s')"
  using assms
  unfolding update_array_def session_open_def
  by (auto simp: call_defs valid_display_def Let_def
           split: if_splits option.splits prod.splits Option.bind_splits)

lemma update_array_session:
  assumes "session_open s" and "update_array e s = Some (r, s')"
  shows "session_open s'"
  using assms update_array_frame [OF assms(2)]
  by (simp add: session_open_def valid_display_def)

lemma update_array_image_data:
  assumes "update_array e s = Some (r, s')"
  shows "if r = 0 then \<exists>x. ximages s (image_ptr s) = Some x \<and> image_data s' = data x
         else r = - 1 \<and> image_data s' = image_data s \<and> shm_contents s' = shm_contents s"
  using assms
  unfolding update_array_def
  by (auto simp: call_defs Let_def
           split: if_splits option.splits prod.splits Option.bind_splits)

text \<open>A polling loop over an open session returns, and the session stays open.\<close>

lemma refreshes_session:
  assumes "session_open s"
  shows "\<exists>s'. refreshes es s = Some s' \<and> session_open s' \<and>
              image_ptr s' = image_ptr s \<and> ximages s' = ximages s \<and>
              shminfo s' = shminfo s \<and> width s' = width s \<and> height s' = height s"
  using assms
proof (induction es arbitrary: s)
  case Nil
  then show ?case by simp
next
  case (Cons e es)
  from update_array_returns [OF Cons.prems, of e]
  obtain r s1 where step: "update_array e s = Some (r, s1)" by blast
  have "session_open s1"
    using update_array_session [OF Cons.prems step] .
  from Cons.IH [OF this] obtain s' where
    "refreshes es s1 = Some s'" "session_open s'" "image_ptr s' = image_ptr s1"
    "ximages s' = ximages s1" "shminfo s' = shminfo s1" "width s' = width s1"
    "height s' = height s1"
    by blast
  with step update_array_frame [OF step] show ?case by simp
qed

lemma refreshes_image_data:
  assumes "session_open s" and "ximages s (image_ptr s) = Some x" and "image_data s = data x"
  shows "\<exists>s'. refreshes es s = Some s' \<and> image_data s' = data x"
  using assms
proof (induction es arbitrary: s)
  case Nil
  then show ?case by simp
next
  case (Cons e es)
  from update_array_returns [OF Cons.prems(1), of e]
  obtain r s1 where step: "update_array e s = Some (r, s1)" by blast
  have open1: "session_open s1"
    using update_array_session [OF Cons.prems(1) step] .
  have heap1: "ximages s1 (image_ptr s1) = Some x"
    using update_array_frame [OF step] Cons.prems(2) by simp
  have "image_data s1 = data x"
    using update_array_image_data [OF step] Cons.prems(2,3) by (auto split: if_splits)
  from Cons.IH [OF open1 heap1 this] step show ?case by simp
qed

section \<open>The window resolver\<close>

text \<open>
  Claim C4. \<open>find_client_window\<close> should return the window named by the
  \<open>_NET_WM_FRAME_WINDOW\<close> property when there is one and the window it was given in
  every other case, and never fail. It does so when the property holds a window (the
  frame 7 resolves to 9) and when the property is absent (window 8 resolves to itself).
  But it reads \<open>*(Window *)prop\<close> whenever the status is \<open>Success\<close> and \<open>prop\<close> is not
  \<open>NULL\<close>, without looking at the number of items, the type or the format: when the
  property exists with another type, or is empty, the buffer is one byte long and the
  read runs past its end instead of falling back to the given window.
\<close>

theorem find_client_window_short_property:
  "find_client_window demo_env 4096 7 demo_session = Some 9 \<and>
   find_client_window demo_env 4096 8 demo_session = Some 8 \<and>
   XGetWindowProperty_env other_type_env 8
     (XInternAtom_env other_type_env ''_NET_WM_FRAME_WINDOW'') = (Success, Some [0]) \<and>
   find_client_window other_type_env 4096 8 demo_session = None \<and>
   create_acquisition other_type_env 8 initial_state = None"
  by (simp add: find_client_window_def create_acquisition_def demo_defs call_defs const_defs
        Let_def)

section \<open>Refresh without a session\<close>

text \<open>When \<open>display\<close> or \<open>image\<close> is \<open>NULL\<close>, \<open>update_array\<close> returns \<open>-1\<close> and changes nothing.\<close>

lemma update_array_guard:
  assumes "display s = NULL \<or> image_ptr s = NULL"
  shows "update_array e s = Some (- 1, s)"
  using assms by (auto simp: update_array_def)

text \<open>
  Claim C5. A refresh before any successful open should return a failure and change
  no static variable. In a process that has called nothing it does. After a failed
  \<open>create_acquisition\<close> it does not: the failed call has left \<open>display\<close> and \<open>image\<close>
  set, so the guard of \<open>update_array\<close> lets the refresh through. Here the open fails at
  \<open>XShmAttach\<close>; a refresh whose transfer is refused then returns \<open>-1\<close> with \<open>pixmap\<close>
  changed from 77 to 78, and a refresh whose transfer is performed returns \<open>0\<close> and
  sets \<open>image_data\<close>.
\<close>

theorem update_array_after_failed_open:
  "update_array demo_env initial_state = Some (- 1, initial_state) \<and>
   do {
     (r, s1) \<leftarrow> create_acquisition no_attach_env 7 initial_state;
     (r', s2) \<leftarrow> update_array refused_env s1;
     (r'', s3) \<leftarrow> update_array demo_env s1;
     Some (r, display s1, image_ptr s1, pixmap s1, image_data s1,
           r', pixmap s2, r'', image_data s3)
   } = Some (- 1, 4096, 8192, 77, NULL, - 1, 78, 0, 65536)"
  by (simp add: create_acquisition_def update_array_def find_client_window_def demo_defs
        call_defs const_defs Let_def)

section \<open>The open-time dimensions\<close>

text \<open>
  Claim C7. After a successful \<open>create_acquisition\<close>, \<open>get_window_size\<close> gives the width
  and height that \<open>XGetWindowAttributes\<close> answered for the resolved window during that
  call, and gives the same pair after any polling loop, whatever the server answers
  during the loop: the loop returns and \<open>update_array\<close> never writes the dimensions.
\<close>

theorem get_window_size_fixed:
  assumes "create_acquisition e window_id s0 = Some (0, s1)"
  shows "\<exists>attr s2. XGetWindowAttributes_env e (xid s1) = Some attr \<and>
           get_window_size s1 = (attr_width attr, attr_height attr) \<and>
           refreshes es s1 = Some s2 \<and>
           get_window_size s2 = (attr_width attr, attr_height attr)"
proof -
  from create_acquisition_success(2) [OF assms] obtain attr where
    a: "XGetWindowAttributes_env e (xid s1) = Some attr"
       "width s1 = attr_width attr" "height s1 = attr_height attr"
    by blast
  from refreshes_session [OF create_acquisition_success(1) [OF assms], of es]
  obtain s2 where
    r: "refreshes es s1 = Some s2" "width s2 = width s1" "height s2 = height s1"
    by blast
  from a r show ?thesis
    by (simp add: get_window_size_def)
qed

text \<open>Opened at 800 by 600, then refreshed three times while the window is 1024 by 768.\<close>

theorem get_window_size_fixed_witness:
  "get_window_size demo_session = (800, 600) \<and>
   map_option get_window_size (refreshes [resized_env, refused_env, resized_env] demo_session) =
     Some (800, 600)"
proof -
  have "XGetWindowAttributes_env demo_env (xid demo_session) =
          Some \<lparr>attr_width = 800, attr_height = 600, attr_depth = 24, attr_visual = 64\<rparr>"
    by (simp add: demo_defs)
  with get_window_size_fixed [OF demo_open, of "[resized_env, refused_env, resized_env]"]
  show ?thesis by auto
qed

section \<open>The buffer address\<close>

text \<open>
  Claim C8. In a session, a successful \<open>update_array\<close>, after any number of earlier
  refreshes, makes \<open>get_image_data\<close> the address where the segment was attached during
  \<open>create_acquisition\<close>, and every later polling loop returns with \<open>get_image_data\<close> at
  that same address: refreshes change the bytes of the segment, never the address.
\<close>

theorem get_image_data_stable:
  assumes "create_acquisition e0 window_id s0 = Some (0, s1)"
    and "refreshes es s1 = Some s2"
    and "update_array e s2 = Some (0, s3)"
  shows "get_image_data s3 = shmaddr (shminfo s1) \<and>
         (\<exists>s4. refreshes es' s3 = Some s4 \<and> get_image_data s4 = get_image_data s3)"
proof -
  have open1: "session_open s1"
    using create_acquisition_success(1) [OF assms(1)] .
  from create_acquisition_success(3) [OF assms(1)] obtain x where
    x: "ximages s1 (image_ptr s1) = Some x" "data x = shmaddr (shminfo s1)"
    by blast
  from refreshes_session [OF open1, of es] assms(2) have
    s2: "session_open s2" "image_ptr s2 = image_ptr s1" "ximages s2 = ximages s1"
    by auto
  have open3: "session_open s3"
    using update_array_session [OF s2(1) assms(3)] .
  have heap3: "ximages s3 (image_ptr s3) = Some x"
    using update_array_frame [OF assms(3)] s2 x by simp
  have data3: "image_data s3 = data x"
    using update_array_image_data [OF assms(3)] s2 x by simp
  from refreshes_image_data [OF open3 heap3 data3, of es'] data3 x show ?thesis
    by (simp add: get_image_data_def)
qed

text \<open>
  On the example server: a refused refresh, then a successful one, then a refused and
  a successful one again; the address is 65536 throughout.
\<close>

theorem get_image_data_stable_witness:
  "map_option (get_image_data \<circ> snd)
     (update_array demo_env (demo_session\<lparr>named_pixmaps := [(4096, 78), (4096, 77)],
                                           pixmap := 78\<rparr>)) = Some 65536 \<and>
   (\<exists>s3 s4. update_array demo_env (demo_session\<lparr>named_pixmaps := [(4096, 78), (4096, 77)],
                                                pixmap := 78\<rparr>) = Some (0, s3) \<and>
            refreshes [refused_env, resized_env] s3 = Some s4 \<and> get_image_data s4 = 65536)"
proof -
  let ?s2 = "demo_session\<lparr>named_pixmaps := [(4096, 78), (4096, 77)], pixmap := 78\<rparr>"
  let ?s3 = "?s2\<lparr>named_pixmaps := [(4096, 77), (4096, 78), (4096, 77)], pixmap := 77,
                  shm_contents := (\<lambda>a. [])(65536 := [1, 2, 3, 4]), image_data := 65536\<rparr>"
  have r: "refreshes [refused_env] demo_session = Some ?s2"
    by (simp add: update_array_def demo_defs call_defs const_defs Let_def)
  have u: "update_array demo_env ?s2 = Some (0, ?s3)"
    by (simp add: update_array_def demo_defs call_defs const_defs Let_def)
  have a: "shmaddr (shminfo demo_session) = 65536"
    by (simp add: demo_defs)
  from get_image_data_stable [OF demo_open r u, of "[refused_env, resized_env]"] a u
  show ?thesis by auto
qed

section \<open>A failed refresh\<close>

text \<open>
  Claim C9. In an open session, when the pixmap named again is null or the server refuses
  the image transfer, \<open>update_array\<close> returns \<open>-1\<close>, the bytes of the shared segment are
  those of before the call, and \<open>image_data\<close> is not assigned.
\<close>

theorem update_array_failure_keeps_buffer:
  assumes "session_open s"
    and "XCompositeNameWindowPixmap_env e (xid s) = 0 \<or>
         XShmGetImage_env e (XCompositeNameWindowPixmap_env e (xid s)) = None"
  shows "\<exists>s'. update_array e s = Some (- 1, s') \<and>
              shm_contents s' = shm_contents s \<and>
              get_image_data s' = get_image_data s"
  using assms
  unfolding update_array_def session_open_def get_image_data_def
  by (auto simp: call_defs valid_display_def Let_def split: option.splits)

text \<open>After one good frame \<open>[1, 2, 3, 4]\<close>, a refused transfer leaves the frame in place.\<close>

theorem update_array_failure_keeps_buffer_witness:
  "map_option (\<lambda>(r, s'). (r, shm_contents s' 65536, get_image_data s'))
     (update_array refused_env demo_refreshed) = Some (- 1, [1, 2, 3, 4], 65536)"
proof -
  have "XCompositeNameWindowPixmap_env refused_env (xid demo_refreshed) = 0 \<or>
        XShmGetImage_env refused_env
          (XCompositeNameWindowPixmap_env refused_env (xid demo_refreshed)) = None"
    by (simp add: demo_defs)
  from update_array_failure_keeps_buffer [OF demo_refreshed_open this]
  obtain s' where "update_array refused_env demo_refreshed = Some (- 1, s')"
    "shm_contents s' = shm_contents demo_refreshed"
    "get_image_data s' = get_image_data demo_refreshed"
    by blast
  then show ?thesis
    by (simp add: demo_defs get_image_data_def)
qed

text \<open>
  Claim C10. A refresh that fails at the image transfer has already assigned the newly
  named pixmap to \<open>pixmap\<close>: the call returns \<open>-1\<close> with \<open>pixmap\<close> changed, while the bytes
  of the segment and \<open>image_data\<close> are unchanged.
\<close>

theorem update_array_transfer_failure_reassigns_pixmap:
  assumes "session_open s"
    and "XCompositeNameWindowPixmap_env e (xid s) = p"
    and "p \<noteq> 0"
    and "XShmGetImage_env e p = None"
  shows "\<exists>s'. update_array e s = Some (- 1, s') \<and> pixmap s' = p \<and>
              shm_contents s' = shm_contents s \<and> image_data s' = image_data s"
  using assms
  unfolding update_array_def session_open_def
  by (auto simp: call_defs valid_display_def Let_def split: option.splits)

text \<open>The stored pixmap was 77; after the refused transfer of pixmap 78 it is 78.\<close>

theorem update_array_transfer_failure_reassigns_pixmap_witness:
  "pixmap demo_refreshed = 77 \<and>
   map_option (\<lambda>(r, s'). (r, pixmap s', image_data s'))
     (update_array refused_env demo_refreshed) = Some (- 1, 78, 65536)"
proof -
  have p: "XCompositeNameWindowPixmap_env refused_env (xid demo_refreshed) = 78"
    by (simp add: demo_defs)
  have n: "(78 :: Pixmap) \<noteq> 0"
    by simp
  have t: "XShmGetImage_env refused_env 78 = None"
    by (simp add: demo_defs)
  from update_array_transfer_failure_reassigns_pixmap [OF demo_refreshed_open p n t]
  obtain s' where "update_array refused_env demo_refreshed = Some (- 1, s')"
    "pixmap s' = 78" "image_data s' = image_data demo_refreshed"
    by blast
  then show ?thesis
    by (simp add: demo_defs)
qed

section \<open>A refresh after the window was resized\<close>




section \<open>Failure paths of create_acquisition\<close>

text \<open>
  Claim C1. A failing \<open>create_acquisition\<close> should have released what it acquired and
  left \<open>display\<close> and \<open>image\<close> \<open>NULL\<close>. It does not: on a server where \<open>XShmAttach\<close> answers
  zero the call returns \<open>-1\<close> with the connection open, the window redirected, the
  pixmap named, the descriptor live, the segment existing and attached, and \<open>display\<close>
  and \<open>image\<close> pointing to them.
\<close>

theorem create_acquisition_failure_releases_nothing:
  "do {
     (r, s) \<leftarrow> create_acquisition no_attach_env 7 initial_state;
     Some (r, display s, image_ptr s, connections s, redirected s, named_pixmaps s,
           map_option bytes_per_line (ximages s 8192), segments s, attachments s)
   } = Some (- 1, 4096, 8192, [4096], [(4096, 9)], [(4096, 77)], Some 3200, [5], [65536])"
  by (simp add: create_acquisition_def find_client_window_def demo_defs call_defs
        const_defs Let_def)

section \<open>close_acquisition\<close>

text \<open>
  Claim C2. Closing should be idempotent. Closing a process that never opened is a
  no-op, and the first close of a session releases everything; but it leaves \<open>display\<close>
  and \<open>image\<close> as they were, so a second close passes both guards and hands the closed
  connection and the freed descriptor to the library again: undefined behaviour.
\<close>

theorem close_acquisition_twice:
  "close_acquisition initial_state = Some initial_state \<and>
   create_acquisition demo_env 7 initial_state = Some (0, demo_session) \<and>
   map_option (\<lambda>s. (display s, image_ptr s, connections s, ximages s 8192, segments s,
                     attachments s))
     (close_acquisition demo_session) = Some (4096, 8192, [], None, [], []) \<and>
   do { s1 \<leftarrow> close_acquisition demo_session; close_acquisition s1 } = None"
  by (simp add: demo_open)
     (simp add: close_acquisition_def demo_defs call_defs const_defs Let_def)

text \<open>
  Claim C6. After a close the accessors should report nothing and a refresh should
  fail. Nothing is reset by \<open>close_acquisition\<close>: after open, refresh, close,
  \<open>get_image_data\<close> is still the address of the detached segment, \<open>get_window_size\<close> is
  still 800 by 600, \<open>get_stride\<close> reads the freed descriptor and \<open>update_array\<close> passes
  its guard and uses the closed connection, both undefined behaviour.
\<close>

theorem close_acquisition_resets_nothing:
  "do {
     (r, s1) \<leftarrow> create_acquisition demo_env 7 initial_state;
     (r', s2) \<leftarrow> update_array demo_env s1;
     s3 \<leftarrow> close_acquisition s2;
     Some (r, r', get_image_data s3, get_window_size s3, get_stride s3,
           update_array demo_env s3)
   } = Some (0, 0, 65536, (800, 600), None, None)"
  by (simp add: demo_open demo_refresh)
     (simp add: close_acquisition_def update_array_def get_stride_def get_image_data_def
        get_window_size_def demo_defs call_defs const_defs Let_def)

end
